theory Spec2Isabelle
  imports Main "HOL-Library.AList" "HOL-Library.Word"
begin

unbundle bit_operations_syntax

section \<open>Python strings and dictionaries\<close>

text \<open>
  Python strings are modelled as \<open>string\<close>. The scripts only ever split on \<open>':'\<close>,
  concatenate, upper-case and hash; service names and volume specifications are taken
  to be ASCII (Compose restricts service names to \<open>[a-zA-Z0-9._-]\<close>), so one
  \<open>char\<close> is one Python character and \<open>encode()\<close> is the identity on the codes.
\<close>

text \<open>\<open>s.split(c)\<close> for a one-character separator: never empty, \<open>"".split(":") == [""]\<close>.\<close>

fun py_split :: "char \<Rightarrow> string \<Rightarrow> string list" where
  "py_split c [] = [[]]"
| "py_split c (x # xs) =
     (if x = c then [] # py_split c xs
      else (case py_split c xs of
              w # ws \<Rightarrow> (x # w) # ws
            | [] \<Rightarrow> [[x]]))"

text \<open>\<open>sep.join(parts)\<close>.\<close>

fun py_join :: "string \<Rightarrow> string list \<Rightarrow> string" where
  "py_join sep [] = []"
| "py_join sep [w] = w"
| "py_join sep (w # ws) = w @ sep @ py_join sep ws"

text \<open>\<open>s.upper()\<close> on ASCII: the letters a..z (codes 97..122) move down by 32.\<close>

definition upper_char :: "char \<Rightarrow> char" where
  "upper_char c =
     (let n = (of_char c :: nat) in if 97 \<le> n \<and> n \<le> 122 then char_of (n - 32) else c)"

definition upper :: "string \<Rightarrow> string" where
  "upper s = map upper_char s"

text \<open>\<open>str(n)\<close> for an integer: decimal digits, a leading \<open>-\<close> when negative.\<close>

definition digit_char :: "nat \<Rightarrow> char" where
  "digit_char d = (''0123456789'' ! d)"

fun str_nat :: "nat \<Rightarrow> string" where
  "str_nat n = (if n < 10 then [digit_char n] else str_nat (n div 10) @ [digit_char (n mod 10)])"

declare str_nat.simps [simp del]

definition str_int :: "int \<Rightarrow> string" where
  "str_int i = (if i < 0 then CHR ''-'' # str_nat (nat (- i)) else str_nat (nat i))"

text \<open>
  A Python \<open>dict\<close> with string keys is an association list in insertion order with
  distinct keys. \<open>d[k] = v\<close> is \<^const>\<open>AList.update\<close>: an existing key keeps its
  position and takes the new value, a new key is appended. \<open>{**a, **b}\<close> copies \<open>a\<close>
  and then assigns every item of \<open>b\<close> in order.
\<close>

type_synonym 'v py_dict = "(string \<times> 'v) list"

definition py_dict_merge :: "'v py_dict \<Rightarrow> 'v py_dict \<Rightarrow> 'v py_dict" where
  "py_dict_merge a b = fold (\<lambda>(k, v). AList.update k v) b a"

section \<open>SHA-256 (\<open>hashlib.sha256(...).hexdigest()\<close>)\<close>

text \<open>
  The hash of FIPS 180-4 on byte strings of any length; the round constants and the
  initial hash value are written in decimal.
\<close>

type_synonym w32 = "32 word"

definition rotr :: "nat \<Rightarrow> w32 \<Rightarrow> w32" where
  "rotr n x = (drop_bit n x) OR (push_bit (32 - n) x)"

definition K256 :: "w32 list" where
  "K256 =
    [1116352408, 1899447441, 3049323471, 3921009573, 961987163, 1508970993,
     2453635748, 2870763221, 3624381080, 310598401, 607225278, 1426881987,
     1925078388, 2162078206, 2614888103, 3248222580, 3835390401, 4022224774,
     264347078, 604807628, 770255983, 1249150122, 1555081692, 1996064986,
     2554220882, 2821834349, 2952996808, 3210313671, 3336571891, 3584528711,
     113926993, 338241895, 666307205, 773529912, 1294757372, 1396182291,
     1695183700, 1986661051, 2177026350, 2456956037, 2730485921, 2820302411,
     3259730800, 3345764771, 3516065817, 3600352804, 4094571909, 275423344,
     430227734, 506948616, 659060556, 883997877, 958139571, 1322822218,
     1537002063, 1747873779, 1955562222, 2024104815, 2227730452, 2361852424,
     2428436474, 2756734187, 3204031479, 3329325298]"

definition H256 :: "w32 list" where
  "H256 =
    [1779033703, 3144134277, 1013904242, 2773480762, 1359893119, 2600822924,
     528734635, 1541459225]"

text \<open>Padding: the byte 0x80, zeros up to 56 modulo 64, the bit length as 8 bytes.\<close>

definition sha_pad :: "8 word list \<Rightarrow> 8 word list" where
  "sha_pad m =
     (let l = length m; k = (119 - l mod 64) mod 64
      in m @ [0x80] @ replicate k 0 @
         map (\<lambda>i. ucast (drop_bit (8 * (7 - i)) (of_nat (8 * l) :: 64 word))) [0..<8])"

fun be_words :: "8 word list \<Rightarrow> w32 list" where
  "be_words (a # b # c # d # rest) =
     (push_bit 24 (ucast a) OR push_bit 16 (ucast b) OR push_bit 8 (ucast c) OR ucast d)
       # be_words rest"
| "be_words _ = []"

fun sha_schedule :: "nat \<Rightarrow> w32 list \<Rightarrow> w32 list" where
  "sha_schedule 0 w = w"
| "sha_schedule (Suc n) w =
    (let t = length w;
         w2 = w ! (t - 2); w7 = w ! (t - 7); w15 = w ! (t - 15); w16 = w ! (t - 16);
         s0 = rotr 7 w15 XOR rotr 18 w15 XOR drop_bit 3 w15;
         s1 = rotr 17 w2 XOR rotr 19 w2 XOR drop_bit 10 w2
     in sha_schedule n (w @ [w16 + s0 + w7 + s1]))"

fun sha_rounds :: "w32 list \<Rightarrow> w32 list \<Rightarrow> w32 list \<Rightarrow> w32 list" where
  "sha_rounds [a, b, c, d, e, f, g, h] (k # ks) (w # ws) =
    (let S1 = rotr 6 e XOR rotr 11 e XOR rotr 25 e;
         ch = (e AND f) XOR (NOT e AND g);
         t1 = h + S1 + ch + k + w;
         S0 = rotr 2 a XOR rotr 13 a XOR rotr 22 a;
         mj = (a AND b) XOR (a AND c) XOR (b AND c);
         t2 = S0 + mj
     in sha_rounds [t1 + t2, a, b, c, d + t1, e, f, g] ks ws)"
| "sha_rounds st _ _ = st"

definition sha_compress :: "w32 list \<Rightarrow> w32 list \<Rightarrow> w32 list" where
  "sha_compress h blk = map2 (+) h (sha_rounds h K256 (sha_schedule 48 blk))"

fun sha_blocks :: "nat \<Rightarrow> w32 list \<Rightarrow> w32 list \<Rightarrow> w32 list" where
  "sha_blocks 0 h ws = h"
| "sha_blocks (Suc n) h ws = sha_blocks n (sha_compress h (take 16 ws)) (drop 16 ws)"

definition sha256 :: "8 word list \<Rightarrow> w32 list" where
  "sha256 m = (let ws = be_words (sha_pad m) in sha_blocks (length ws div 16) H256 ws)"

definition hex_digit :: "nat \<Rightarrow> char" where
  "hex_digit n = (''0123456789abcdef'' ! n)"

definition hex32 :: "w32 \<Rightarrow> string" where
  "hex32 w = map (\<lambda>i. hex_digit (unat (drop_bit (4 * (7 - i)) w AND 0xf))) [0..<8]"

definition sha256_hexdigest :: "string \<Rightarrow> string" where
  "sha256_hexdigest s = concat (map hex32 (sha256 (map (\<lambda>c. of_nat (of_char c)) s)))"

section \<open>The compose document\<close>

text \<open>
  The data model of the transformer: a compose document is a mapping with the optional
  keys \<open>services\<close>, \<open>volumes\<close> and \<open>networks\<close>; a service is a mapping that may hold
  \<open>ports\<close>, \<open>volumes\<close> and \<open>container_name\<close>. An absent key is \<open>None\<close>. A port entry
  is a string or an integer; a volume entry is a string or something else (the long
  syntax, a mapping), which the code passes through. All other keys are carried along
  untouched. Each service mapping is an object of its own (no YAML alias makes two
  services share one mapping).
\<close>

datatype yaml = YNull | YBool bool | YInt int | YStr string
  | YSeq "yaml list" | YMap "(string \<times> yaml) list"

datatype port_spec = PortStr string | PortInt int

datatype volume_spec = VolStr string | VolOther yaml

record service_config =
  ports :: "port_spec list option"
  volumes :: "volume_spec list option"
  container_name :: "yaml option"
  other_keys :: "yaml py_dict"

record compose_document =
  services :: "service_config py_dict option"
  top_level_volumes :: "yaml py_dict option"
  networks :: "yaml option"
  other_top_level :: "yaml py_dict"

type_synonym env_var_set = "string py_dict"

datatype py_error = ValueError string | AttributeError string

text \<open>\<open>data.get("services", {})\<close>.\<close>

definition get_services :: "compose_document \<Rightarrow> service_config py_dict" where
  "get_services data = (case services data of None \<Rightarrow> [] | Some s \<Rightarrow> s)"

text \<open>
  The loops below rebind the values of \<open>services\<close> in place; \<open>services\<close> is the object
  stored in \<open>data\<close> when the key is present and a fresh empty dict otherwise.
\<close>

definition put_services :: "service_config py_dict \<Rightarrow> compose_document \<Rightarrow> compose_document" where
  "put_services s data = (case services data of None \<Rightarrow> data | Some _ \<Rightarrow> data\<lparr>services := Some s\<rparr>)"

section \<open>\<open>safeify_compose.py\<close>: \<open>make_multi_instance_safe\<close>\<close>

text \<open>
  \<open>str(port).split(":")[-1] if isinstance(port, str) else str(port)\<close>
\<close>

definition container_port_of :: "port_spec \<Rightarrow> string" where
  "container_port_of port =
     (case port of
        PortStr s \<Rightarrow> last (py_split CHR '':'' s)
      | PortInt n \<Rightarrow> str_int n)"

definition port_env_var_name :: "string \<Rightarrow> nat \<Rightarrow> nat \<Rightarrow> string" where
  "port_env_var_name service_name len_ports i =
     (if len_ports = 1 then upper service_name @ ''_PORT''
      else upper service_name @ ''_PORT_'' @ str_nat i)"

definition port_with_fallback :: "string \<Rightarrow> string \<Rightarrow> string" where
  "port_with_fallback env_var_name container_port =
     ''${'' @ env_var_name @ '':-'' @ container_port @ ''}:'' @ container_port"

text \<open>One pass of \<open>for i, port in enumerate(ports)\<close>; the state is \<open>(new_ports, env_vars)\<close>.\<close>

definition port_step ::
  "string \<Rightarrow> nat \<Rightarrow> nat \<times> port_spec \<Rightarrow> port_spec list \<times> env_var_set
     \<Rightarrow> port_spec list \<times> env_var_set" where
  "port_step service_name len_ports ip st =
     (case ip of (i, port) \<Rightarrow>
      case st of (new_ports, env_vars) \<Rightarrow>
        let container_port = container_port_of port;
            env_var_name = port_env_var_name service_name len_ports i
        in (new_ports @ [PortStr (port_with_fallback env_var_name container_port)],
            AList.update env_var_name container_port env_vars))"

text \<open>
  One pass of \<open>for service_name, service_config in services.items()\<close>; the state is the
  services rebuilt so far and \<open>env_vars\<close>.
\<close>

definition safe_service_step ::
  "string \<times> service_config \<Rightarrow> service_config py_dict \<times> env_var_set
     \<Rightarrow> service_config py_dict \<times> env_var_set" where
  "safe_service_step sc st =
     (case sc of (service_name, service_config) \<Rightarrow>
      case st of (rebuilt, env_vars) \<Rightarrow>
        let (service_config1, env_vars1) =
              (case ports service_config of
                 None \<Rightarrow> (service_config, env_vars)
               | Some ps \<Rightarrow>
                   let (new_ports, env_vars') =
                         fold (port_step service_name (length ps)) (enumerate 0 ps) ([], env_vars)
                   in (service_config\<lparr>ports := Some new_ports\<rparr>, env_vars'));
            service_config2 = service_config1\<lparr>container_name := None\<rparr>
        in (rebuilt @ [(service_name, service_config2)], env_vars1))"

definition make_multi_instance_safe :: "compose_document \<Rightarrow> compose_document \<times> env_var_set" where
  "make_multi_instance_safe data =
     (let (services', env_vars) = fold safe_service_step (get_services data) ([], [])
      in ((put_services services' data)\<lparr>networks := None\<rparr>, env_vars))"

section \<open>\<open>safeify_compose.py\<close>: \<open>transform_volumes\<close>\<close>

text \<open>\<open>isinstance(vol, str) and ":" in vol and vol[0] in "./"\<close>\<close>

definition is_bind_mount :: "volume_spec \<Rightarrow> bool" where
  "is_bind_mount vol =
     (case vol of
        VolStr s \<Rightarrow> CHR '':'' \<in> set s \<and>
          (case s of [] \<Rightarrow> False | c # _ \<Rightarrow> c = CHR ''.'' \<or> c = CHR ''/'')
      | VolOther _ \<Rightarrow> False)"

definition default_vol_name :: "string \<Rightarrow> string \<Rightarrow> string" where
  "default_vol_name service_name vol =
     service_name @ ''-'' @ take 8 (sha256_hexdigest (service_name @ '':'' @ vol))"

definition volume_env_var_name :: "string \<Rightarrow> nat \<Rightarrow> nat \<Rightarrow> string" where
  "volume_env_var_name service_name total_bind_mounts bind_mount_count =
     (if total_bind_mounts = 1 then upper service_name @ ''_VOLUME''
      else upper service_name @ ''_VOLUME_'' @ str_nat bind_mount_count)"

text \<open>\<open>f"{vol_name_with_fallback}:{':'.join(vol.split(':')[1:])}"\<close>\<close>

definition volume_with_fallback :: "string \<Rightarrow> string \<Rightarrow> string \<Rightarrow> string" where
  "volume_with_fallback env_var_name default_name vol =
     ''${'' @ env_var_name @ '':-'' @ default_name @ ''}'' @ '':'' @
       py_join '':'' (tl (py_split CHR '':'' vol))"

text \<open>
  The state of \<open>for vol in service_config["volumes"]\<close>:
  \<open>(new_volumes, bind_mount_count, volume_env_vars, named_volumes)\<close>.
\<close>

type_synonym vol_state = "volume_spec list \<times> nat \<times> env_var_set \<times> yaml py_dict"

definition volume_step :: "string \<Rightarrow> nat \<Rightarrow> volume_spec \<Rightarrow> vol_state \<Rightarrow> vol_state" where
  "volume_step service_name total_bind_mounts vol st =
     (case st of (new_volumes, bind_mount_count, volume_env_vars, named_volumes) \<Rightarrow>
        (case vol of
           VolStr s \<Rightarrow>
             if is_bind_mount vol then
               let name = default_vol_name service_name s;
                   env_var_name =
                     volume_env_var_name service_name total_bind_mounts bind_mount_count;
                   bind_mount_count' =
                     (if total_bind_mounts = 1 then bind_mount_count else bind_mount_count + 1)
               in (new_volumes @ [VolStr (volume_with_fallback env_var_name name s)],
                   bind_mount_count',
                   AList.update env_var_name name volume_env_vars,
                   AList.update name YNull named_volumes)
             else (new_volumes @ [vol], bind_mount_count, volume_env_vars, named_volumes)
         | VolOther _ \<Rightarrow>
             (new_volumes @ [vol], bind_mount_count, volume_env_vars, named_volumes)))"

text \<open>
  One pass of the loop over \<open>services.items()\<close> in mode \<open>convert-to-named\<close>; the state
  is the services rebuilt so far, \<open>volume_env_vars\<close> and \<open>named_volumes\<close>.
\<close>

definition convert_service_step ::
  "string \<times> service_config
     \<Rightarrow> service_config py_dict \<times> env_var_set \<times> yaml py_dict
     \<Rightarrow> service_config py_dict \<times> env_var_set \<times> yaml py_dict" where
  "convert_service_step sc st =
     (case sc of (service_name, service_config) \<Rightarrow>
      case st of (rebuilt, volume_env_vars, named_volumes) \<Rightarrow>
        (case volumes service_config of
           None \<Rightarrow> (rebuilt @ [(service_name, service_config)], volume_env_vars, named_volumes)
         | Some vs \<Rightarrow>
             let total_bind_mounts = length (filter is_bind_mount vs);
                 (new_volumes, _, volume_env_vars', named_volumes') =
                    fold (volume_step service_name total_bind_mounts) vs
                      ([], 0, volume_env_vars, named_volumes)
             in (rebuilt @ [(service_name, service_config\<lparr>volumes := Some new_volumes\<rparr>)],
                 volume_env_vars', named_volumes')))"

text \<open>\<open>data.setdefault("volumes", {}).update(named_volumes)\<close>, done only \<open>if named_volumes\<close>.\<close>

definition register_named_volumes :: "yaml py_dict \<Rightarrow> compose_document \<Rightarrow> compose_document" where
  "register_named_volumes named_volumes data =
     (if named_volumes = [] then data
      else data\<lparr>top_level_volumes :=
             Some (py_dict_merge (case top_level_volumes data of None \<Rightarrow> [] | Some d \<Rightarrow> d)
                     named_volumes)\<rparr>)"

definition transform_volumes ::
  "compose_document \<Rightarrow> string \<Rightarrow> py_error + compose_document \<times> env_var_set" where
  "transform_volumes data volumes_option =
     (if volumes_option = ''remove'' then
        Inr ((put_services
                (map (\<lambda>(service_name, service_config).
                        (service_name, service_config\<lparr>volumes := None\<rparr>))
                     (get_services data)) data)
             \<lparr>top_level_volumes := None\<rparr>, [])
      else if volumes_option = ''convert-to-named'' then
        (let (services', volume_env_vars, named_volumes) =
               fold convert_service_step (get_services data) ([], [], [])
         in Inr (register_named_volumes named_volumes (put_services services' data),
                 volume_env_vars))
      else if volumes_option = ''keep'' then Inr (data, [])
      else Inl (ValueError (''Invalid volumes option: '' @ volumes_option)))"

section \<open>\<open>safeify_compose.py\<close>: \<open>safeify_compose\<close>\<close>

text \<open>
  The part of \<open>safeify_compose\<close> between reading and writing the files: the two
  transformations in order, and \<open>env_vars = {**volume_env_vars, **port_env_vars}\<close>.
\<close>

definition safeify_compose_data ::
  "compose_document \<Rightarrow> string \<Rightarrow> py_error + compose_document \<times> env_var_set" where
  "safeify_compose_data data volumes_option =
     (case transform_volumes data volumes_option of
        Inl e \<Rightarrow> Inl e
      | Inr (data1, volume_env_vars) \<Rightarrow>
          (case make_multi_instance_safe data1 of
             (data2, port_env_vars) \<Rightarrow>
               Inr (data2, py_dict_merge volume_env_vars port_env_vars)))"

section \<open>The rewritten document, stated from the specification\<close>

text \<open>
  What the specification says about ports, written independently of the loops above:
  every entry of a service with \<open>n\<close> entries becomes
  \<open>"${NAME:-container_port}:container_port"\<close>, and the variables are the pairs
  \<open>(NAME, container_port)\<close> in entry order, service after service.
\<close>

definition spec_port_entries :: "string \<Rightarrow> port_spec list \<Rightarrow> port_spec list" where
  "spec_port_entries service_name ps =
     map (\<lambda>(i, p). PortStr (''${'' @ port_env_var_name service_name (length ps) i @ '':-'' @
                                container_port_of p @ ''}:'' @ container_port_of p))
         (enumerate 0 ps)"

definition spec_port_env_vars :: "string \<Rightarrow> port_spec list \<Rightarrow> env_var_set" where
  "spec_port_env_vars service_name ps =
     map (\<lambda>(i, p). (port_env_var_name service_name (length ps) i, container_port_of p))
         (enumerate 0 ps)"

definition spec_all_port_env_vars :: "service_config py_dict \<Rightarrow> env_var_set" where
  "spec_all_port_env_vars svcs =
     concat (map (\<lambda>(service_name, service_config).
                    case ports service_config of
                      None \<Rightarrow> []
                    | Some ps \<Rightarrow> spec_port_env_vars service_name ps) svcs)"

definition safe_service :: "string \<times> service_config \<Rightarrow> string \<times> service_config" where
  "safe_service sc =
     (case sc of (service_name, service_config) \<Rightarrow>
        (service_name,
         service_config\<lparr>ports := map_option (spec_port_entries service_name) (ports service_config),
                          container_name := None\<rparr>))"



section \<open>Example documents\<close>

text \<open>The documents of the specification's testable properties, and one with two
  service names that differ only in letter case.\<close>

definition web_doc :: compose_document where
  "web_doc =
     \<lparr>services = Some [(''web'',
        \<lparr>ports = Some [PortStr ''8080:80''], volumes = None,
           container_name = None, other_keys = []\<rparr>)],
      top_level_volumes = None, networks = None, other_top_level = []\<rparr>"



definition db_doc :: compose_document where
  "db_doc =
     \<lparr>services = Some [(''db'',
        \<lparr>ports = Some [PortStr ''5432:5432''], volumes = Some [VolStr ''./data:/var/lib/data''],
           container_name = None, other_keys = []\<rparr>)],
      top_level_volumes = None, networks = None, other_top_level = []\<rparr>"

section \<open>\<open>safeify_compose.py\<close>: \<open>cli\<close>\<close>

text \<open>
  The \<open>Namespace\<close> that \<open>parse_args\<close> returns is a mapping from attribute names to
  values. The three \<open>add_argument\<close> calls give it the attributes \<open>compose_file\<close>
  (from \<open>dest\<close>), \<open>volumes\<close> and \<open>output\<close>; reading any other attribute raises
  \<open>AttributeError\<close>.
\<close>

definition parse_args :: "string \<Rightarrow> string \<Rightarrow> string \<Rightarrow> string py_dict" where
  "parse_args input_arg volumes_arg output_arg =
     [(''compose_file'', input_arg), (''volumes'', volumes_arg), (''output'', output_arg)]"

definition py_getattr :: "string py_dict \<Rightarrow> string \<Rightarrow> py_error + string" where
  "py_getattr ns name =
     (case map_of ns name of None \<Rightarrow> Inl (AttributeError name) | Some v \<Rightarrow> Inr v)"

text \<open>
  How the process ends: \<open>sys.exit(n)\<close>, an exception that nothing catches, or a normal
  return. \<open>glob.glob\<close>, \<open>Path.exists\<close> and
  \<open>safeify_compose\<close> with its file input and output
  (\<open>safeify_compose(input_path, volumes_option, output_path)\<close>, called with positional
  arguments) are inputs of the model. Python evaluates the arguments of the final call
  from left to right before it calls.
\<close>

datatype process_end = SysExit nat | Uncaught py_error | Returned string

definition cli ::
  "string py_dict \<Rightarrow> (string \<Rightarrow> string list) \<Rightarrow> (string \<Rightarrow> bool)
     \<Rightarrow> (string \<Rightarrow> string \<Rightarrow> string \<Rightarrow> py_error + string) \<Rightarrow> process_end" where
  "cli args glob path_exists run_safeify_compose =
     (case py_getattr args ''compose_file'' of
        Inl e \<Rightarrow> Uncaught e
      | Inr pattern \<Rightarrow>
          let compose_files = glob pattern
          in if compose_files = [] then SysExit 1
             else if length compose_files > 1 then SysExit 1
             else
               let input_path = hd compose_files
               in if \<not> path_exists input_path then SysExit 1
                  else
                    (case py_getattr args ''output_path'' of
                       Inl e \<Rightarrow> Uncaught e
                     | Inr second \<Rightarrow>
                         (case py_getattr args ''volumes'' of
                            Inl e \<Rightarrow> Uncaught e
                          | Inr third \<Rightarrow>
                              (case run_safeify_compose input_path second third of
                                 Inl e \<Rightarrow> Uncaught e
                               | Inr output_path \<Rightarrow> Returned output_path))))"

definition cli_exit_status :: "process_end \<Rightarrow> nat" where
  "cli_exit_status p = (case p of SysExit n \<Rightarrow> n | Uncaught _ \<Rightarrow> 1 | Returned _ \<Rightarrow> 0)"

section \<open>\<open>spinoff_agent.py\<close>: the workspace lifecycle\<close>

text \<open>
  The script is sequential: it calls git, docker, the agent and the file system one
  after the other. The model passes an explicit state through these calls. What each
  external call does is not decided by the script, so it is an input: the
  \<open>environment\<close> gives every call its outcome, and says what every command the script
  starts does to the workspace directory and to \<open>docker-compose.safe.yml\<close> in it (the
  agent works in the workspace, and containers may mount it).
\<close>

datatype exn = CalledProcessError nat | OtherException | KeyboardInterrupt | SystemExit nat

datatype 'a result = Normal 'a | Raise exn

text \<open>
  An external call either completes (a subprocess with its return code) or raises an
  exception of its own (\<open>OSError\<close>, \<open>shutil.Error\<close>, a YAML error). While a call of
  the \<open>try\<close> block is in progress a signal may arrive: \<open>Signal n oc\<close> delivers signal
  \<open>n\<close>, and \<open>oc\<close> is how the call would end if the handler returned.
\<close>

datatype outcome = Returns nat | Fails

datatype stage = Quiet outcome | Signal nat outcome

text \<open>
  The trace records what the script does to the outside: the commands it starts, the
  copy, the writing of the safe compose file, the two \<open>Path.exists()\<close> tests of the
  teardown with their answers, the removal of the directory, and the runs of the signal
  handler.
\<close>

datatype event = Run "string list" | Copytree | Safeify
  | SafeComposeExists bool | WorkspaceExists bool | Rmtree | SignalHandler nat

record world =
  docker_started :: bool
  workspace_exists :: bool
  safe_compose_exists :: bool
  teardown_runs :: nat
  trace :: "event list"

record environment =
  feature_name :: string
  workspace_id :: string
  base_branch :: string
  input_dir :: bool
  agent :: string
  prompt :: "string option"
  docker_services :: "string list"
  base_branch_call :: outcome
  repo_root_call :: stage
  mkdir_call :: stage
  copytree_call :: stage
  source_has_safe_compose :: bool
  copytree_leaves_dir :: bool
  copytree_leaves_file :: bool
  verify_call :: stage
  checkout_call :: stage
  compose_file_found :: bool
  safeify_call :: stage
  safeify_leaves_file :: bool
  up_call :: stage
  ps_call :: stage
  agent_call :: stage
  down_call :: "nat \<Rightarrow> outcome"
  rmtree_call :: "nat \<Rightarrow> outcome"
  rmtree_leaves_file :: "nat \<Rightarrow> bool"
  files_after :: "string list \<Rightarrow> bool \<times> bool \<Rightarrow> bool \<times> bool"

definition initial_world :: world where
  "initial_world =
     \<lparr>docker_started = False, workspace_exists = False, safe_compose_exists = False,
      teardown_runs = 0, trace = []\<rparr>"

definition emit :: "event \<Rightarrow> world \<Rightarrow> world" where
  "emit e w = w\<lparr>trace := trace w @ [e]\<rparr>"

text \<open>
  \<open>files_after env cmd (d, c)\<close>: whether the workspace directory and the safe compose
  file exist once \<open>cmd\<close> has run, given whether they existed before; for a command that
  a signal interrupts, what it has made of them when the signal arrives.
\<close>

definition change_files :: "(bool \<times> bool \<Rightarrow> bool \<times> bool) \<Rightarrow> world \<Rightarrow> world" where
  "change_files f w =
     (case f (workspace_exists w, safe_compose_exists w) of
        (d, c) \<Rightarrow> w\<lparr>workspace_exists := d, safe_compose_exists := c\<rparr>)"

definition then_do ::
  "'a result \<times> world \<Rightarrow> ('a \<Rightarrow> world \<Rightarrow> 'b result \<times> world) \<Rightarrow> 'b result \<times> world" where
  "then_do r f = (case r of (Normal x, w) \<Rightarrow> f x w | (Raise e, w) \<Rightarrow> (Raise e, w))"

text \<open>\<open>subprocess.run(cmd, check=check)\<close> once the child has ended.\<close>

definition finish_cmd :: "bool \<Rightarrow> outcome \<Rightarrow> world \<Rightarrow> nat result \<times> world" where
  "finish_cmd check oc w =
     (case oc of
        Returns rc \<Rightarrow> if check \<and> rc \<noteq> 0 then (Raise (CalledProcessError rc), w) else (Normal rc, w)
      | Fails \<Rightarrow> (Raise OtherException, w))"

definition compose_cmd :: "environment \<Rightarrow> string list" where
  "compose_cmd env =
     [''docker'', ''compose'', ''-f'', ''docker-compose.safe.yml'', ''-p'', workspace_id env]"

definition down_cmd :: "environment \<Rightarrow> string list" where
  "down_cmd env = compose_cmd env @ [''down'', ''-v'']"

text \<open>
  \<open>cleanup_docker\<close>, \<open>cleanup_workspace\<close> and the closure \<open>cleanup_handler\<close> of
  \<open>main\<close>. The \<open>k\<close>-th run of the teardown gets the outcomes \<open>down_call env k\<close> and
  \<open>rmtree_call env k\<close>. \<open>docker-compose.safe.yml\<close> lies in the workspace directory, so
  removing the directory removes it; a removal that fails may or may not have removed it
  (\<open>rmtree_leaves_file\<close>). Signals that arrive while the teardown itself runs are not
  modelled.
\<close>

definition cleanup_docker :: "environment \<Rightarrow> nat \<Rightarrow> world \<Rightarrow> unit result \<times> world" where
  "cleanup_docker env k w =
     (let w1 = emit (SafeComposeExists (safe_compose_exists w)) w
      in if safe_compose_exists w then
           then_do (finish_cmd False (down_call env k)
                      (change_files (files_after env (down_cmd env))
                         (emit (Run (down_cmd env)) w1)))
             (\<lambda>_ w'. (Normal (), w'))
         else (Normal (), w1))"

definition cleanup_workspace :: "environment \<Rightarrow> nat \<Rightarrow> world \<Rightarrow> unit result \<times> world" where
  "cleanup_workspace env k w =
     (let w1 = emit (WorkspaceExists (workspace_exists w)) w
      in if workspace_exists w then
           (case rmtree_call env k of
              Returns _ \<Rightarrow>
                (Normal (),
                 (emit Rmtree w1)\<lparr>workspace_exists := False, safe_compose_exists := False\<rparr>)
            | Fails \<Rightarrow>
                (Raise OtherException,
                 (emit Rmtree w1)\<lparr>safe_compose_exists :=
                    (safe_compose_exists w \<and> rmtree_leaves_file env k)\<rparr>))
         else (Normal (), w1))"

definition sys_exit :: "nat \<Rightarrow> world \<Rightarrow> unit result \<times> world" where
  "sys_exit code w = (Raise (SystemExit code), w)"

definition cleanup_handler :: "environment \<Rightarrow> nat option \<Rightarrow> world \<Rightarrow> unit result \<times> world" where
  "cleanup_handler env signum w =
     (let k = teardown_runs w; w0 = w\<lparr>teardown_runs := Suc k\<rparr>
      in then_do (if docker_started w0 then cleanup_docker env k w0 else (Normal (), w0))
           (\<lambda>_ w1. then_do (cleanup_workspace env k w1)
              (\<lambda>_ w2. sys_exit (case signum of None \<Rightarrow> 0 | Some n \<Rightarrow> 128 + n) w2)))"

text \<open>
  An external call of the \<open>try\<close> block. \<open>signal.signal\<close> has installed
  \<open>cleanup_handler\<close> for SIGINT and SIGTERM, so a signal runs the handler in the state
  the call has reached (\<open>at_signal\<close>); what the handler raises comes out of the call.
\<close>

definition call ::
  "environment \<Rightarrow> stage \<Rightarrow> (world \<Rightarrow> world) \<Rightarrow> (outcome \<Rightarrow> world \<Rightarrow> 'a result \<times> world)
     \<Rightarrow> world \<Rightarrow> 'a result \<times> world" where
  "call env st at_signal f w =
     (case st of
        Quiet oc \<Rightarrow> f oc w
      | Signal n oc \<Rightarrow>
          then_do (cleanup_handler env (Some n) (emit (SignalHandler n) (at_signal w)))
            (\<lambda>_ w'. f oc w'))"

definition run_cmd :: "environment \<Rightarrow> string list \<Rightarrow> bool \<Rightarrow> stage \<Rightarrow> world \<Rightarrow> nat result \<times> world" where
  "run_cmd env cmd check st w =
     call env st id (finish_cmd check) (change_files (files_after env cmd) (emit (Run cmd) w))"

definition branch_name :: "environment \<Rightarrow> string" where
  "branch_name env = ''feat/'' @ feature_name env"

definition get_repo_root :: "environment \<Rightarrow> world \<Rightarrow> nat result \<times> world" where
  "get_repo_root env w =
     (if input_dir env then (Normal 0, w)
      else run_cmd env [''git'', ''rev-parse'', ''--show-toplevel''] True (repo_root_call env) w)"

definition make_workspaces_dir :: "environment \<Rightarrow> world \<Rightarrow> unit result \<times> world" where
  "make_workspaces_dir env w =
     call env (mkdir_call env) id
       (\<lambda>oc w'. case oc of Returns _ \<Rightarrow> (Normal (), w') | Fails \<Rightarrow> (Raise OtherException, w')) w"

text \<open>
  \<open>shutil.copytree\<close>: a complete copy holds a \<open>docker-compose.safe.yml\<close> exactly when
  the source tree does; a copy that fails or is interrupted leaves what it has made.
\<close>

definition copytree :: "environment \<Rightarrow> world \<Rightarrow> unit result \<times> world" where
  "copytree env w =
     call env (copytree_call env)
       (\<lambda>w'. w'\<lparr>workspace_exists := copytree_leaves_dir env,
                safe_compose_exists := (copytree_leaves_dir env \<and> copytree_leaves_file env)\<rparr>)
       (\<lambda>oc w'. case oc of
                  Returns _ \<Rightarrow>
                    (Normal (), w'\<lparr>workspace_exists := True,
                                    safe_compose_exists := source_has_safe_compose env\<rparr>)
                | Fails \<Rightarrow>
                    (Raise OtherException,
                     w'\<lparr>workspace_exists := copytree_leaves_dir env,
                        safe_compose_exists :=
                          (copytree_leaves_dir env \<and> copytree_leaves_file env)\<rparr>))
       (emit Copytree w)"

definition checkout_branch :: "environment \<Rightarrow> world \<Rightarrow> unit result \<times> world" where
  "checkout_branch env w =
     then_do (run_cmd env [''git'', ''rev-parse'', ''--verify'', branch_name env] False
                (verify_call env) w)
       (\<lambda>returncode w1.
          then_do
            (if returncode = 0 then
               run_cmd env [''git'', ''checkout'', branch_name env] True (checkout_call env) w1
             else
               run_cmd env [''git'', ''checkout'', ''-b'', branch_name env, base_branch env] True
                 (checkout_call env) w1)
            (\<lambda>_ w2. (Normal (), w2)))"

definition safeify :: "environment \<Rightarrow> world \<Rightarrow> unit result \<times> world" where
  "safeify env w =
     call env (safeify_call env) (\<lambda>w'. w'\<lparr>safe_compose_exists := safeify_leaves_file env\<rparr>)
       (\<lambda>oc w'. case oc of
                  Returns _ \<Rightarrow> (Normal (), w'\<lparr>safe_compose_exists := True\<rparr>)
                | Fails \<Rightarrow> (Raise OtherException, w'\<lparr>safe_compose_exists := safeify_leaves_file env\<rparr>))
       (emit Safeify w)"

text \<open>
  \<open>docker_services\<close> is the list argparse built; the test
  \<open>docker_services and docker_services != "all"\<close> compares a list with a string, so it
  holds for every non-empty list and the names are always appended.
\<close>

definition up_cmd :: "environment \<Rightarrow> string list" where
  "up_cmd env =
     compose_cmd env @ [''up'', ''--build'', ''--force-recreate'', ''-d'']
       @ (if docker_services env \<noteq> [] then docker_services env else [])"

definition setup_docker :: "environment \<Rightarrow> world \<Rightarrow> bool result \<times> world" where
  "setup_docker env w =
     (if \<not> compose_file_found env then (Normal False, w)
      else
        then_do (safeify env w)
          (\<lambda>_ w1. then_do (run_cmd env (up_cmd env) True (up_call env) w1)
             (\<lambda>_ w2. then_do (run_cmd env (compose_cmd env @ [''ps'']) True (ps_call env) w2)
                (\<lambda>_ w3. (Normal True, w3)))))"

text \<open>\<open>subprocess.run([agent_cmd, None])\<close> raises a \<open>TypeError\<close> before anything starts.\<close>

definition run_agent :: "environment \<Rightarrow> world \<Rightarrow> unit result \<times> world" where
  "run_agent env w =
     (case prompt env of
        None \<Rightarrow> (Raise OtherException, w)
      | Some p \<Rightarrow> then_do (run_cmd env [agent env, p] True (agent_call env) w)
                   (\<lambda>_ w'. (Normal (), w')))"

text \<open>The body of the \<open>try\<close> statement of \<open>main\<close>; the log lines and \<open>show_summary\<close>,
  which only logs, are left out.\<close>

definition try_body :: "environment \<Rightarrow> world \<Rightarrow> unit result \<times> world" where
  "try_body env w =
     then_do (get_repo_root env w)
       (\<lambda>_ w1. then_do (make_workspaces_dir env w1)
          (\<lambda>_ w2. then_do (copytree env w2)
             (\<lambda>_ w3. then_do (checkout_branch env w3)
                (\<lambda>_ w4. then_do
                    (if docker_services env \<noteq> [] then
                       then_do (setup_docker env w4)
                         (\<lambda>started w5. (Normal (), w5\<lparr>docker_started := started\<rparr>))
                     else (Normal (), w4))
                    (\<lambda>_ w6. run_agent env w6)))))"

text \<open>
  \<open>main\<close> after argument parsing: the base branch is read before the handlers are
  installed and outside the \<open>try\<close>; then the \<open>try\<close> with its three \<open>except\<close> clauses
  (\<open>SystemExit\<close> is no \<open>Exception\<close> and passes through them); then the normal cleanup.
\<close>

definition main :: "environment \<Rightarrow> unit result \<times> world" where
  "main env =
     then_do (finish_cmd True (base_branch_call env)
                (emit (Run [''git'', ''rev-parse'', ''--abbrev-ref'', ''HEAD'']) initial_world))
       (\<lambda>_ w.
          case try_body env w of
            (Normal _, w1) \<Rightarrow> cleanup_handler env None w1
          | (Raise KeyboardInterrupt, w1) \<Rightarrow>
              then_do (cleanup_handler env None w1) (\<lambda>_ w2. cleanup_handler env None w2)
          | (Raise (CalledProcessError returncode), w1) \<Rightarrow>
              then_do (cleanup_handler env None w1) (\<lambda>_ w2. sys_exit returncode w2)
          | (Raise (SystemExit code), w1) \<Rightarrow> (Raise (SystemExit code), w1)
          | (Raise OtherException, w1) \<Rightarrow>
              then_do (cleanup_handler env None w1) (\<lambda>_ w2. sys_exit 1 w2))"

text \<open>
  The exit status of the process: the code of \<open>sys.exit\<close>, 0 when \<open>main\<close> returns, and
  1 when an exception reaches the top level.
\<close>

definition exit_status :: "unit result \<times> world \<Rightarrow> nat" where
  "exit_status r =
     (case fst r of
        Normal _ \<Rightarrow> 0
      | Raise (SystemExit code) \<Rightarrow> code
      | Raise KeyboardInterrupt \<Rightarrow> 130
      | Raise _ \<Rightarrow> 1)"

section \<open>The lifecycle: notions used in the proofs\<close>

text \<open>The signal numbers for which the handler ran, in order.\<close>

primrec signals :: "event list \<Rightarrow> nat list" where
  "signals [] = []"
| "signals (e # es) = (case e of SignalHandler n \<Rightarrow> n # signals es | _ \<Rightarrow> signals es)"

text \<open>The state in which a run of the teardown ends.\<close>

definition torn_down :: "environment \<Rightarrow> world \<Rightarrow> world" where
  "torn_down env w = snd (cleanup_handler env None w)"

definition quiet :: "world \<Rightarrow> bool" where
  "quiet w \<longleftrightarrow> teardown_runs w = 0 \<and> signals (trace w) = []"

definition interrupted :: "nat \<Rightarrow> world \<Rightarrow> bool" where
  "interrupted n w \<longleftrightarrow> teardown_runs w = 0 \<and> signals (trace w) = [n]"

definition exc_ok :: "environment \<Rightarrow> exn \<Rightarrow> world \<Rightarrow> bool" where
  "exc_ok env e w =
     (case e of
        SystemExit c \<Rightarrow> (\<exists>n w0. c = 128 + n \<and> w = torn_down env w0 \<and> interrupted n w0)
      | KeyboardInterrupt \<Rightarrow> False
      | _ \<Rightarrow> quiet w)"

definition triple ::
  "environment \<Rightarrow> (world \<Rightarrow> bool) \<Rightarrow> (world \<Rightarrow> 'a result \<times> world) \<Rightarrow> ('a \<Rightarrow> world \<Rightarrow> bool) \<Rightarrow> bool" where
  "triple env P m Q \<longleftrightarrow>
     (\<forall>w. P w \<longrightarrow> (case m w of (Normal x, w') \<Rightarrow> Q x w' | (Raise e, w') \<Rightarrow> exc_ok env e w'))"

text \<open>
  Example environments. In \<open>calm_env\<close> every call succeeds, no command touches the
  two files, the new branch does not exist yet and \<open>docker compose down\<close> returns 1. The
  others differ from it in one point: \<open>docker compose up\<close> returns 1; SIGINT arrives
  while the agent runs; the agent deletes \<open>docker-compose.safe.yml\<close>; SIGINT arrives
  while the agent runs and the first removal of the directory fails.
\<close>

definition calm_env :: environment where
  "calm_env =
     \<lparr>feature_name = ''auth'', workspace_id = ''auth_1700000000_4242'', base_branch = ''main'',
      input_dir = False, agent = ''claude-code'', prompt = Some ''Add JWT authentication'',
      docker_services = [''all''],
      base_branch_call = Returns 0, repo_root_call = Quiet (Returns 0),
      mkdir_call = Quiet (Returns 0), copytree_call = Quiet (Returns 0),
      source_has_safe_compose = False, copytree_leaves_dir = True,
      copytree_leaves_file = False, verify_call = Quiet (Returns 1),
      checkout_call = Quiet (Returns 0), compose_file_found = True,
      safeify_call = Quiet (Returns 0), safeify_leaves_file = True,
      up_call = Quiet (Returns 0), ps_call = Quiet (Returns 0), agent_call = Quiet (Returns 0),
      down_call = (\<lambda>_. Returns 1), rmtree_call = (\<lambda>_. Returns 0),
      rmtree_leaves_file = (\<lambda>_. True), files_after = (\<lambda>_ fs. fs)\<rparr>"

definition up_fails_env :: environment where
  "up_fails_env = calm_env\<lparr>up_call := Quiet (Returns 1)\<rparr>"


definition agent_deletes_env :: environment where
  "agent_deletes_env =
     calm_env\<lparr>files_after :=
       (\<lambda>cmd fs. if cmd = [''claude-code'', ''Add JWT authentication''] then (fst fs, False)
                  else fs)\<rparr>"


section \<open>Strings and dictionaries: basic facts\<close>

lemma py_split_nonempty: "py_split c s \<noteq> []"
  by (induction s) (auto split: list.splits)

lemma py_split_no_sep: "c \<notin> set s \<Longrightarrow> py_split c s = [s]"
  by (induction s) auto

lemma py_split_append: "py_split c (pre @ c # suf) = py_split c pre @ py_split c suf"
  by (induction pre) (auto split: list.splits simp: py_split_nonempty)

lemma last_py_split_suffix:
  "c \<notin> set suf \<Longrightarrow> last (py_split c (pre @ c # suf)) = suf"
  by (simp add: py_split_append py_split_no_sep py_split_nonempty)

lemma py_split_parts_no_sep: "w \<in> set (py_split c s) \<Longrightarrow> c \<notin> set w"
  by (induction s arbitrary: w) (auto split: if_splits list.splits)

lemma last_py_split_no_sep: "c \<notin> set (last (py_split c s))"
  using py_split_parts_no_sep [OF last_in_set [OF py_split_nonempty]] .

lemma digit_char_not_colon: "d < 10 \<Longrightarrow> digit_char d \<noteq> CHR '':''"
proof -
  assume "d < 10"
  then have "d < length ''0123456789''" by simp
  then have "digit_char d \<in> set ''0123456789''"
    unfolding digit_char_def by (rule nth_mem)
  then show ?thesis by auto
qed

lemma str_nat_digits: "c \<in> set (str_nat n) \<Longrightarrow> \<exists>d<10. c = digit_char d"
proof (induction n arbitrary: c rule: str_nat.induct)
  case (1 n)
  show ?case
  proof (cases "n < 10")
    case True
    with "1.prems" show ?thesis by (auto simp: str_nat.simps [of n])
  next
    case False
    with "1.prems" have "c \<in> set (str_nat (n div 10)) \<or> c = digit_char (n mod 10)"
      by (auto simp: str_nat.simps [of n])
    then show ?thesis
    proof
      assume "c \<in> set (str_nat (n div 10))"
      with "1.IH" False show ?thesis by blast
    next
      assume "c = digit_char (n mod 10)"
      moreover have "n mod 10 < 10" by simp
      ultimately show ?thesis by blast
    qed
  qed
qed

lemma str_nat_no_colon: "CHR '':'' \<notin> set (str_nat n)"
proof
  assume "CHR '':'' \<in> set (str_nat n)"
  then obtain d where "d < 10" "CHR '':'' = digit_char d"
    using str_nat_digits by blast
  then show False using digit_char_not_colon [of d] by simp
qed

lemma str_int_no_colon: "CHR '':'' \<notin> set (str_int i)"
  by (simp add: str_int_def str_nat_no_colon)



lemma map_of_fold_update:
  "map_of (fold (\<lambda>(k, v). AList.update k v) kvs al) = map_of al ++ map_of (rev kvs)"
proof (induction kvs arbitrary: al)
  case Nil
  then show ?case by simp
next
  case (Cons kv kvs)
  obtain k v where kv: "kv = (k, v)" by (cases kv)
  show ?case
    by (simp add: kv Cons.IH AList.update_conv' map_add_upd_left fun_eq_iff map_add_def split: option.splits)
qed

lemma distinct_fold_update:
  "distinct (map fst al) \<Longrightarrow> distinct (map fst (fold (\<lambda>(k, v). AList.update k v) kvs al))"
  by (induction kvs arbitrary: al) (auto simp: AList.distinct_update)

lemma keys_fold_update:
  "fst ` set (fold (\<lambda>(k, v). AList.update k v) kvs al) = fst ` set al \<union> fst ` set kvs"
proof (induction kvs arbitrary: al)
  case Nil
  then show ?case by simp
next
  case (Cons kv kvs)
  obtain k v where kv: "kv = (k, v)" by (cases kv)
  have "fst ` set (fold (\<lambda>(k, v). AList.update k v) kvs (AList.update k v al)) =
          ({k} \<union> fst ` set al) \<union> fst ` set kvs"
    by (simp only: Cons.IH AList.dom_update)
  then show ?case by (auto simp: kv)
qed

lemma py_dict_merge_second_wins:
  assumes "distinct (map fst b)" "map_of b k = Some v"
  shows "map_of (py_dict_merge a b) k = Some v"
proof -
  from assms(1) have "distinct (map fst (rev b))" by (simp add: rev_map [symmetric])
  moreover from assms(2) have "(k, v) \<in> set (rev b)" by (auto dest: map_of_SomeD)
  ultimately have "map_of (rev b) k = Some v" by (rule map_of_is_SomeI)
  then show ?thesis by (simp add: py_dict_merge_def map_of_fold_update map_add_def)
qed




section \<open>\<open>make_multi_instance_safe\<close>: the loops in closed form\<close>

lemma container_port_no_colon: "CHR '':'' \<notin> set (container_port_of p)"
  by (cases p) (simp_all add: container_port_of_def last_py_split_no_sep str_int_no_colon)

lemma container_port_of_fallback:
  "CHR '':'' \<notin> set cp \<Longrightarrow> container_port_of (PortStr (port_with_fallback v cp)) = cp"
proof -
  assume h: "CHR '':'' \<notin> set cp"
  have "port_with_fallback v cp = (''${'' @ v @ '':-'' @ cp @ ''}'') @ CHR '':'' # cp"
    by (simp add: port_with_fallback_def)
  then show ?thesis
    by (simp only: container_port_of_def port_spec.case last_py_split_suffix [OF h])
qed



lemma port_step_pair:
  "port_step name n (i, p) (acc, env) =
     (acc @ [PortStr (port_with_fallback (port_env_var_name name n i) (container_port_of p))],
      AList.update (port_env_var_name name n i) (container_port_of p) env)"
  by (simp add: port_step_def Let_def)

lemma fold_port_step:
  "fold (port_step name n) ips (acc, env) =
     (acc @ map (\<lambda>(i, p). PortStr (port_with_fallback (port_env_var_name name n i) (container_port_of p))) ips,
      fold (\<lambda>(k, v). AList.update k v)
           (map (\<lambda>(i, p). (port_env_var_name name n i, container_port_of p)) ips) env)"
proof (induction ips arbitrary: acc env)
  case Nil
  then show ?case by simp
next
  case (Cons ip ips)
  obtain i p where ip: "ip = (i, p)" by (cases ip)
  show ?case by (simp add: ip Cons.IH port_step_pair)
qed

lemma fold_port_step_spec:
  "fold (port_step name (length ps)) (enumerate 0 ps) ([], env) =
     (spec_port_entries name ps,
      fold (\<lambda>(k, v). AList.update k v) (spec_port_env_vars name ps) env)"
  by (simp add: fold_port_step spec_port_entries_def spec_port_env_vars_def port_with_fallback_def)

lemma safe_service_step_eq:
  "safe_service_step sc (acc, env) =
     (acc @ [safe_service sc],
      fold (\<lambda>(k, v). AList.update k v) (spec_all_port_env_vars [sc]) env)"
proof -
  obtain name cfg where sc: "sc = (name, cfg)" by (cases sc)
  show ?thesis
    by (cases "ports cfg")
       (simp_all add: sc safe_service_step_def safe_service_def spec_all_port_env_vars_def
          fold_port_step_spec Let_def)
qed

lemma spec_all_port_env_vars_Cons:
  "spec_all_port_env_vars (sc # svcs) = spec_all_port_env_vars [sc] @ spec_all_port_env_vars svcs"
  by (simp add: spec_all_port_env_vars_def)

lemma fold_safe_service_step:
  "fold safe_service_step svcs (acc, env) =
     (acc @ map safe_service svcs,
      fold (\<lambda>(k, v). AList.update k v) (spec_all_port_env_vars svcs) env)"
proof (induction svcs arbitrary: acc env)
  case Nil
  then show ?case by (simp add: spec_all_port_env_vars_def)
next
  case (Cons sc svcs)
  show ?case
    by (simp add: safe_service_step_eq Cons.IH spec_all_port_env_vars_Cons [of sc svcs])
qed

lemma make_multi_instance_safe_eq:
  "make_multi_instance_safe data =
     ((put_services (map safe_service (get_services data)) data)\<lparr>networks := None\<rparr>,
      fold (\<lambda>(k, v). AList.update k v) (spec_all_port_env_vars (get_services data)) [])"
  by (simp add: make_multi_instance_safe_def fold_safe_service_step)

lemma get_services_put_services:
  "get_services (put_services s data) = (case services data of None \<Rightarrow> [] | Some _ \<Rightarrow> s)"
  by (simp add: get_services_def put_services_def split: option.splits)

lemma get_services_safe:
  "get_services (fst (make_multi_instance_safe data)) = map safe_service (get_services data)"
  by (simp add: make_multi_instance_safe_eq get_services_def put_services_def split: option.splits)

lemma distinct_port_env_vars: "distinct (map fst (snd (make_multi_instance_safe data)))"
  by (simp add: make_multi_instance_safe_eq distinct_fold_update)

















section \<open>\<open>make_multi_instance_safe\<close> applied twice\<close>

lemma enumerate_rewritten:
  "map (\<lambda>(i, p). F i (container_port_of p))
       (enumerate k (map (\<lambda>(i, p). PortStr (port_with_fallback (V i) (container_port_of p)))
                         (enumerate k ps))) =
   map (\<lambda>(i, p). F i (container_port_of p)) (enumerate k ps)"
  by (induction ps arbitrary: k)
     (simp_all add: container_port_of_fallback container_port_no_colon)

lemma spec_port_entries_alt:
  "spec_port_entries name ps =
     map (\<lambda>(i, p). PortStr (port_with_fallback (port_env_var_name name (length ps) i)
                                  (container_port_of p))) (enumerate 0 ps)"
  by (simp add: spec_port_entries_def port_with_fallback_def)

lemma length_spec_port_entries: "length (spec_port_entries name ps) = length ps"
  by (simp add: spec_port_entries_def)

lemma spec_port_entries_idem:
  "spec_port_entries name (spec_port_entries name ps) = spec_port_entries name ps"
proof -
  have "spec_port_entries name (spec_port_entries name ps) =
          map (\<lambda>(i, p). PortStr (port_with_fallback (port_env_var_name name (length ps) i)
                                       (container_port_of p)))
              (enumerate 0 (spec_port_entries name ps))"
    by (simp add: spec_port_entries_alt [of name "spec_port_entries name ps"]
          length_spec_port_entries)
  also have "\<dots> = spec_port_entries name ps"
    unfolding spec_port_entries_alt [of name ps]
    by (rule enumerate_rewritten
          [where F = "\<lambda>i c. PortStr (port_with_fallback (port_env_var_name name (length ps) i) c)"])
  finally show ?thesis .
qed

lemma spec_port_env_vars_rewritten:
  "spec_port_env_vars name (spec_port_entries name ps) = spec_port_env_vars name ps"
proof -
  have "spec_port_env_vars name (spec_port_entries name ps) =
          map (\<lambda>(i, p). (port_env_var_name name (length ps) i, container_port_of p))
              (enumerate 0 (spec_port_entries name ps))"
    by (simp add: spec_port_env_vars_def length_spec_port_entries)
  also have "\<dots> = spec_port_env_vars name ps"
    unfolding spec_port_entries_alt [of name ps] spec_port_env_vars_def
    by (rule enumerate_rewritten
          [where F = "\<lambda>i c. (port_env_var_name name (length ps) i, c)"])
  finally show ?thesis .
qed

lemma safe_service_idem: "safe_service (safe_service sc) = safe_service sc"
  by (cases sc) (simp add: safe_service_def spec_port_entries_idem option.map_comp comp_def
        split: option.splits)

lemma spec_all_port_env_vars_safe:
  "spec_all_port_env_vars (map safe_service svcs) = spec_all_port_env_vars svcs"
proof (induction svcs)
  case Nil
  then show ?case by simp
next
  case (Cons sc svcs)
  obtain name cfg where sc: "sc = (name, cfg)" by (cases sc)
  have "spec_all_port_env_vars [safe_service sc] = spec_all_port_env_vars [sc]"
    by (cases "ports cfg")
       (simp_all add: sc safe_service_def spec_all_port_env_vars_def spec_port_env_vars_rewritten)
  with Cons.IH show ?case
    using spec_all_port_env_vars_Cons [of sc svcs]
          spec_all_port_env_vars_Cons [of "safe_service sc" "map safe_service svcs"]
    by simp
qed

text \<open>
  C3, amended. \<open>make_multi_instance_safe\<close> is idempotent: applied to its own output it
  returns the same document and the same variables. The rewritten entry
  \<open>"${NAME:-p}:p"\<close> ends in \<open>":p"\<close> and \<open>p\<close> holds no \<open>':'\<close>, so the second pass
  extracts \<open>p\<close> again and builds the same entry; the variable reference is not wrapped a
  second time. (Port entries are strings or integers, as in the data model.)
\<close>

theorem make_multi_instance_safe_idempotent:
  "make_multi_instance_safe (fst (make_multi_instance_safe data)) = make_multi_instance_safe data"
proof -
  define d1 where "d1 = fst (make_multi_instance_safe data)"
  define env where
    "env = fold (\<lambda>(k, v). AList.update k v) (spec_all_port_env_vars (get_services data)) []"
  have once: "make_multi_instance_safe data = (d1, env)"
    unfolding d1_def env_def by (simp add: make_multi_instance_safe_eq)
  have s1: "get_services d1 = map safe_service (get_services data)"
    unfolding d1_def by (rule get_services_safe)
  have a: "map safe_service (get_services d1) = map safe_service (get_services data)"
    by (simp add: s1 safe_service_idem)
  have b: "spec_all_port_env_vars (get_services d1) = spec_all_port_env_vars (get_services data)"
    by (simp add: s1 spec_all_port_env_vars_safe)
  have c: "(put_services (map safe_service (get_services data)) d1)\<lparr>networks := None\<rparr> = d1"
    unfolding d1_def
    by (simp add: make_multi_instance_safe_eq put_services_def split: option.splits)
  have "make_multi_instance_safe d1 = (d1, env)"
    unfolding env_def by (simp only: make_multi_instance_safe_eq [of d1] a b c)
  with once show ?thesis by simp
qed

text \<open>
  C3 as stated fails on the specification's own example: for service \<open>web\<close> with the
  single entry \<open>"8080:80"\<close> the second application returns the ports of the first.
\<close>

theorem single_port_rewrite_repeats:
  "get_services (fst (make_multi_instance_safe web_doc)) =
     [(''web'', \<lparr>ports = Some [PortStr ''${WEB_PORT:-80}:80''], volumes = None,
                  container_name = None, other_keys = []\<rparr>)]
   \<and> get_services (fst (make_multi_instance_safe (fst (make_multi_instance_safe web_doc)))) =
     [(''web'', \<lparr>ports = Some [PortStr ''${WEB_PORT:-80}:80''], volumes = None,
                  container_name = None, other_keys = []\<rparr>)]
   \<and> snd (make_multi_instance_safe web_doc) = [(''WEB_PORT'', ''80'')]
   \<and> snd (make_multi_instance_safe (fst (make_multi_instance_safe web_doc))) =
       [(''WEB_PORT'', ''80'')]"
  by code_simp

section \<open>\<open>transform_volumes\<close>\<close>








text \<open>
  The padding of SHA-256: after the message come the byte 0x80, the least number of
  zero bytes that brings the length to 56 modulo 64, and the length in bits as 8 bytes;
  the padded message fills whole blocks of 64 bytes, one more block when 56 to 63 bytes
  of the message are left over.
\<close>

lemma sha_pad_zeros:
  "(119 - l mod 64) mod 64 = (if l mod 64 < 56 then 55 - l mod 64 else 119 - l mod 64)"
  for l :: nat
proof (cases "l mod 64 < 56")
  case True
  then have "119 - l mod 64 = 64 + (55 - l mod 64)" by simp
  then have "(119 - l mod 64) mod 64 = (55 - l mod 64) mod 64" by (simp only: mod_add_self1)
  with True show ?thesis by simp
next
  case False
  then have "119 - l mod 64 < 64" by simp
  with False show ?thesis by simp
qed

lemma sha_pad_length:
  "length (sha_pad m) = 64 * (length m div 64) + (if length m mod 64 < 56 then 64 else 128)"
proof -
  define q r where "q = length m div 64" and "r = length m mod 64"
  have l: "length m = 64 * q + r" and r: "r < 64" by (simp_all add: q_def r_def)
  have "length (sha_pad m) = length m + 9 + (119 - r) mod 64"
    by (simp add: sha_pad_def Let_def r_def)
  also have "(119 - r) mod 64 = (if r < 56 then 55 - r else 119 - r)"
    unfolding r_def by (rule sha_pad_zeros)
  also have "length m + 9 + (if r < 56 then 55 - r else 119 - r)
               = 64 * q + (if r < 56 then 64 else 128)"
    using r by (simp add: l)
  finally show ?thesis by (simp add: q_def r_def)
qed

lemma sha_pad_blocks: "length (sha_pad m) mod 64 = 0"
  by (simp add: sha_pad_length)

lemma sha_pad_shape:
  "\<exists>k < 64. sha_pad m = m @ [0x80] @ replicate k 0
       @ map (\<lambda>i. ucast (drop_bit (8 * (7 - i)) (of_nat (8 * length m) :: 64 word))) [0..<8]
     \<and> (length m + 1 + k) mod 64 = 56"
proof -
  define q r where "q = length m div 64" and "r = length m mod 64"
  define k where "k = (119 - r) mod 64"
  have l: "length m = 64 * q + r" and r: "r < 64" by (simp_all add: q_def r_def)
  have k: "k < 64" by (simp add: k_def)
  have "k = (if r < 56 then 55 - r else 119 - r)"
    unfolding k_def r_def by (rule sha_pad_zeros)
  with r have "length m + 1 + k = 64 * q + (if r < 56 then 56 else 120)"
    by (simp add: l)
  moreover have "(64 * q + 56) mod 64 = 56" "(64 * q + 120) mod 64 = 56" by simp_all
  ultimately have "(length m + 1 + k) mod 64 = 56" by simp
  moreover have "sha_pad m = m @ [0x80] @ replicate k 0
       @ map (\<lambda>i. ucast (drop_bit (8 * (7 - i)) (of_nat (8 * length m) :: 64 word))) [0..<8]"
    by (simp add: sha_pad_def Let_def k_def r_def)
  ultimately show ?thesis using k by blast
qed


text \<open>
  A message of 56 bytes, which needs a second block for its padding: Python gives
  \<open>hashlib.sha256(b"postgres:./docker/postgres-data:/var/lib/postgresql/data").hexdigest()[:8]
  == "41a78c96"\<close>.
\<close>

lemma sha256_two_block_example:
  "take 8 (sha256_hexdigest ''postgres:./docker/postgres-data:/var/lib/postgresql/data'')
     = ''41a78c96''"
  by code_simp

lemma default_vol_name_two_block_example:
  "length ''postgres:./docker/postgres-data:/var/lib/postgresql/data'' = 56
   \<and> default_vol_name ''postgres'' ''./docker/postgres-data:/var/lib/postgresql/data''
       = ''postgres-41a78c96''"
  using sha256_two_block_example by (simp add: default_vol_name_def)




text \<open>
  C6. In mode \<open>remove\<close> the transformation succeeds with an empty set of variables, and
  the returned document has no top-level \<open>volumes\<close> key and no \<open>volumes\<close> key in any
  service; the services themselves are all still there, in order.
\<close>

theorem transform_volumes_remove:
  "transform_volumes data ''remove'' = Inr (fst (projr (transform_volumes data ''remove'')), [])
   \<and> top_level_volumes (fst (projr (transform_volumes data ''remove''))) = None
   \<and> (\<forall>sc \<in> set (get_services (fst (projr (transform_volumes data ''remove'')))).
         volumes (snd sc) = None)
   \<and> map fst (get_services (fst (projr (transform_volumes data ''remove'')))) =
       map fst (get_services data)"
  by (auto simp: transform_volumes_def get_services_def put_services_def split: option.splits)

theorem transform_volumes_remove_witness:
  "transform_volumes db_doc ''remove'' =
     Inr (\<lparr>services = Some [(''db'',
            \<lparr>ports = Some [PortStr ''5432:5432''], volumes = None,
               container_name = None, other_keys = []\<rparr>)],
          top_level_volumes = None, networks = None, other_top_level = []\<rparr>, [])
   \<and> volumes (snd (hd (get_services (fst (projr (transform_volumes db_doc ''remove'')))))) = None"
proof -
  have e: "transform_volumes db_doc ''remove'' =
     Inr (\<lparr>services = Some [(''db'',
            \<lparr>ports = Some [PortStr ''5432:5432''], volumes = None,
               container_name = None, other_keys = []\<rparr>)],
          top_level_volumes = None, networks = None, other_top_level = []\<rparr>, [])"
    by (simp add: transform_volumes_def db_doc_def get_services_def put_services_def)
  have "hd (get_services (fst (projr (transform_volumes db_doc ''remove''))))
          \<in> set (get_services (fst (projr (transform_volumes db_doc ''remove''))))"
    by (simp add: e get_services_def)
  with transform_volumes_remove [of db_doc] e show ?thesis by blast
qed

text \<open>
  C7. \<open>transform_volumes\<close> fails exactly when the mode is none of \<open>keep\<close>,
  \<open>remove\<close>, \<open>convert-to-named\<close>; the failure is the \<open>ValueError\<close> that names the
  mode (the specification's \<open>ConfigError\<close>); in mode \<open>keep\<close> the document comes back
  unchanged with an empty set of variables.
\<close>

theorem transform_volumes_modes:
  "(isl (transform_volumes data volumes_option) \<longleftrightarrow>
      volumes_option \<notin> {''keep'', ''remove'', ''convert-to-named''})
   \<and> (\<forall>e. transform_volumes data volumes_option = Inl e \<longrightarrow>
          e = ValueError (''Invalid volumes option: '' @ volumes_option))
   \<and> transform_volumes data ''keep'' = Inr (data, [])"
  by (auto simp: transform_volumes_def split: prod.splits)

theorem transform_volumes_modes_witness:
  "transform_volumes db_doc ''delete'' = Inl (ValueError ''Invalid volumes option: delete'')
   \<and> \<not> isl (transform_volumes db_doc ''remove'')
   \<and> transform_volumes db_doc ''keep'' = Inr (db_doc, [])"
proof -
  have a: "''delete'' \<notin> {''keep'', ''remove'', ''convert-to-named''}" by simp
  have b: "\<not> ''remove'' \<notin> {''keep'', ''remove'', ''convert-to-named''}" by simp
  from transform_volumes_modes [of db_doc "''delete''"] a
  have "isl (transform_volumes db_doc ''delete'')" by blast
  then obtain e where e: "transform_volumes db_doc ''delete'' = Inl e" by (auto simp: isl_def)
  with transform_volumes_modes [of db_doc "''delete''"]
  have "e = ValueError (''Invalid volumes option: '' @ ''delete'')" by blast
  with e have 1: "transform_volumes db_doc ''delete'' = Inl (ValueError ''Invalid volumes option: delete'')"
    by simp
  from transform_volumes_modes [of db_doc "''remove''"] b
  have 2: "\<not> isl (transform_volumes db_doc ''remove'')" by blast
  from transform_volumes_modes [of db_doc "''keep''"]
  have 3: "transform_volumes db_doc ''keep'' = Inr (db_doc, [])" by blast
  from 1 2 3 show ?thesis by blast
qed

section \<open>\<open>safeify_compose\<close>: merging the variables\<close>

text \<open>
  C9. \<open>safeify_compose\<close> returns the document after both transformations together with
  \<open>{**volume_env_vars, **port_env_vars}\<close>, and every port variable is in the merged
  mapping with the port's value; in particular, for two dictionaries and a key present in
  both, the merged mapping holds the value of the second (the port variables).
\<close>

theorem safeify_compose_ports_win:
  "(transform_volumes data volumes_option = Inr (data1, volume_env_vars) \<longrightarrow>
      make_multi_instance_safe data1 = (data2, port_env_vars) \<longrightarrow>
        safeify_compose_data data volumes_option =
          Inr (data2, py_dict_merge volume_env_vars port_env_vars)
        \<and> (\<forall>k v. map_of port_env_vars k = Some v \<longrightarrow>
               map_of (py_dict_merge volume_env_vars port_env_vars) k = Some v))
   \<and> (distinct (map fst b) \<longrightarrow> k' \<in> fst ` set a \<longrightarrow> map_of b k' = Some v' \<longrightarrow>
        map_of (py_dict_merge a b) k' = Some v')"
proof (intro conjI impI allI)
  assume t: "transform_volumes data volumes_option = Inr (data1, volume_env_vars)"
    and m: "make_multi_instance_safe data1 = (data2, port_env_vars)"
  show "safeify_compose_data data volumes_option =
          Inr (data2, py_dict_merge volume_env_vars port_env_vars)"
    by (simp add: safeify_compose_data_def t m)
  fix k v assume "map_of port_env_vars k = Some v"
  moreover from distinct_port_env_vars [of data1] m have "distinct (map fst port_env_vars)" by simp
  ultimately show "map_of (py_dict_merge volume_env_vars port_env_vars) k = Some v"
    by (intro py_dict_merge_second_wins)
next
  assume "distinct (map fst b)" "map_of b k' = Some v'"
  then show "map_of (py_dict_merge a b) k' = Some v'" by (rule py_dict_merge_second_wins)
qed

lemma make_multi_instance_safe_db_doc:
  "make_multi_instance_safe db_doc =
     (\<lparr>services = Some [(''db'',
         \<lparr>ports = Some [PortStr ''${DB_PORT:-5432}:5432''],
            volumes = Some [VolStr ''./data:/var/lib/data''],
            container_name = None, other_keys = []\<rparr>)],
       top_level_volumes = None, networks = None, other_top_level = []\<rparr>,
      [(''DB_PORT'', ''5432'')])"
  by code_simp

theorem safeify_compose_ports_win_witness:
  "safeify_compose_data db_doc ''keep'' =
     Inr (\<lparr>services = Some [(''db'',
            \<lparr>ports = Some [PortStr ''${DB_PORT:-5432}:5432''],
               volumes = Some [VolStr ''./data:/var/lib/data''],
               container_name = None, other_keys = []\<rparr>)],
          top_level_volumes = None, networks = None, other_top_level = []\<rparr>,
          [(''DB_PORT'', ''5432'')])
   \<and> map_of (py_dict_merge [(''DB_PORT'', ''db-0a1b2c3d''), (''DB_VOLUME'', ''db-0a1b2c3d'')]
                [(''DB_PORT'', ''5432'')]) ''DB_PORT'' = Some ''5432''"
proof -
  let ?d2 = "\<lparr>services = Some [(''db'',
            \<lparr>ports = Some [PortStr ''${DB_PORT:-5432}:5432''],
               volumes = Some [VolStr ''./data:/var/lib/data''],
               container_name = None, other_keys = []\<rparr>)],
          top_level_volumes = None, networks = None, other_top_level = []\<rparr>"
  let ?pv = "[(''DB_PORT'', ''5432'')]"
  let ?vv = "[(''DB_PORT'', ''db-0a1b2c3d''), (''DB_VOLUME'', ''db-0a1b2c3d'')]"
  note w = safeify_compose_ports_win
             [where data = db_doc and volumes_option = "''keep''" and ?data1.0 = db_doc
                and volume_env_vars = "[]" and ?data2.0 = ?d2 and port_env_vars = ?pv
                and b = ?pv and k' = "''DB_PORT''" and a = ?vv and v' = "''5432''"]
  have t: "transform_volumes db_doc ''keep'' = Inr (db_doc, [])"
    by (simp add: transform_volumes_def)
  have m: "make_multi_instance_safe db_doc = (?d2, ?pv)"
    by (rule make_multi_instance_safe_db_doc)
  have g: "py_dict_merge [] ?pv = ?pv"
    by (simp add: py_dict_merge_def)
  have d: "distinct (map fst ?pv)" by simp
  have i: "''DB_PORT'' \<in> fst ` set ?vv" by simp
  have l: "map_of ?pv ''DB_PORT'' = Some ''5432''" by simp
  from w t m have "safeify_compose_data db_doc ''keep'' = Inr (?d2, py_dict_merge [] ?pv)"
    by blast
  then have 1: "safeify_compose_data db_doc ''keep'' = Inr (?d2, ?pv)" by (simp only: g)
  from w d i l have 2: "map_of (py_dict_merge ?vv ?pv) ''DB_PORT'' = Some ''5432''" by blast
  from 1 2 show ?thesis by blast
qed

section \<open>\<open>cli\<close>: the exit status\<close>

lemma cli_never_returns:
  "cli (parse_args input_arg volumes_arg output_arg) glob path_exists run_safeify_compose
     \<noteq> Returned p"
  by (simp add: cli_def parse_args_def py_getattr_def Let_def)

lemma cli_exit_status_1:
  "cli_exit_status
     (cli (parse_args input_arg volumes_arg output_arg) glob path_exists run_safeify_compose) = 1"
  by (simp add: cli_def parse_args_def py_getattr_def cli_exit_status_def Let_def)

lemma cli_no_match:
  "cli (parse_args ''*compose.*ml'' ''keep'' ''{input_stem}.safe.yml'') (\<lambda>_. [])
       path_exists run_safeify_compose = SysExit 1"
  "cli (parse_args ''*compose.*ml'' ''keep'' ''{input_stem}.safe.yml'')
       (\<lambda>_. [''compose.yml'', ''docker-compose.yaml'']) path_exists run_safeify_compose
     = SysExit 1"
  by (simp_all add: cli_def parse_args_def py_getattr_def)

text \<open>
  C4. The claim is right about the three failure cases, but the code never reaches exit
  status 0: with exactly one matching, existing file, \<open>cli\<close> reads \<open>args.output_path\<close>,
  an attribute the parser never defines (the option is stored as \<open>output\<close>), so an
  \<open>AttributeError\<close> ends the process with status 1 before \<open>safeify_compose\<close> is
  called.
\<close>

theorem cli_single_existing_file:
  "cli (parse_args ''docker-compose.yml'' ''keep'' ''{input_stem}.safe.yml'')
       (\<lambda>_. [''docker-compose.yml'']) (\<lambda>_. True) run_safeify_compose
     = Uncaught (AttributeError ''output_path'')
   \<and> cli_exit_status
         (cli (parse_args ''docker-compose.yml'' ''keep'' ''{input_stem}.safe.yml'')
            (\<lambda>_. [''docker-compose.yml'']) (\<lambda>_. True) run_safeify_compose) = 1"
  by (simp add: cli_def parse_args_def py_getattr_def cli_exit_status_def)

section \<open>The lifecycle: teardown and exit status\<close>

lemma signals_append [simp]: "signals (xs @ ys) = signals xs @ signals ys"
  by (induction xs) (auto split: event.splits)

lemma signals_member: "n \<in> set (signals tr) \<longleftrightarrow> SignalHandler n \<in> set tr"
  by (induction tr) (auto split: event.splits)

lemma change_files_fields [simp]:
  "trace (change_files f w) = trace w"
  "teardown_runs (change_files f w) = teardown_runs w"
  "docker_started (change_files f w) = docker_started w"
  "workspace_exists (change_files f w) = fst (f (workspace_exists w, safe_compose_exists w))"
  "safe_compose_exists (change_files f w) = snd (f (workspace_exists w, safe_compose_exists w))"
  by (simp_all add: change_files_def split: prod.splits)

lemma emit_fields [simp]:
  "trace (emit e w) = trace w @ [e]"
  "teardown_runs (emit e w) = teardown_runs w"
  "docker_started (emit e w) = docker_started w"
  "workspace_exists (emit e w) = workspace_exists w"
  "safe_compose_exists (emit e w) = safe_compose_exists w"
  by (simp_all add: emit_def)

lemma cleanup_handler_raises: "fst (cleanup_handler env signum w) \<noteq> Normal x"
  by (simp add: cleanup_handler_def cleanup_workspace_def cleanup_docker_def sys_exit_def
        finish_cmd_def then_do_def Let_def split: outcome.splits)

lemma cleanup_handler_ok:
  assumes "rmtree_call env (teardown_runs w) = Returns r" "down_call env (teardown_runs w) = Returns d"
  shows "cleanup_handler env signum w =
           (Raise (SystemExit (case signum of None \<Rightarrow> 0 | Some n \<Rightarrow> 128 + n)), torn_down env w)"
  using assms
  by (simp add: cleanup_handler_def cleanup_workspace_def cleanup_docker_def sys_exit_def
        finish_cmd_def then_do_def torn_down_def Let_def)

text \<open>What one run of the teardown that does not raise leaves behind.\<close>

lemma torn_down_fields:
  assumes "rmtree_call env (teardown_runs w) = Returns r" "down_call env (teardown_runs w) = Returns d"
  shows "\<not> workspace_exists (torn_down env w)"
    and "teardown_runs (torn_down env w) = Suc (teardown_runs w)"
    and "docker_started (torn_down env w) = docker_started w"
    and "signals (trace (torn_down env w)) = signals (trace w)"
  using assms
  by (simp_all add: cleanup_handler_def cleanup_workspace_def cleanup_docker_def sys_exit_def
        finish_cmd_def then_do_def torn_down_def Let_def)


lemma tripleI:
  "(\<And>w. P w \<Longrightarrow> (case m w of (Normal x, w') \<Rightarrow> Q x w' | (Raise e, w') \<Rightarrow> exc_ok env e w'))
     \<Longrightarrow> triple env P m Q"
  by (simp add: triple_def)

lemma triple_then:
  assumes "triple env P m Q" "\<And>x. triple env (Q x) (f x) R"
  shows "triple env P (\<lambda>w. then_do (m w) f) R"
proof (rule tripleI)
  fix w assume p: "P w"
  obtain r w' where m: "m w = (r, w')" by (cases "m w")
  show "case then_do (m w) f of (Normal x, w') \<Rightarrow> R x w' | (Raise e, w') \<Rightarrow> exc_ok env e w'"
  proof (cases r)
    case (Normal x)
    with assms(1) p m have "Q x w'" by (auto simp: triple_def)
    with assms(2) [of x] have "case f x w' of (Normal y, w'') \<Rightarrow> R y w'' | (Raise e, w'') \<Rightarrow> exc_ok env e w''"
      by (simp add: triple_def)
    then show ?thesis by (simp add: then_do_def m Normal)
  next
    case (Raise e)
    with assms(1) p m have "exc_ok env e w'" by (auto simp: triple_def)
    then show ?thesis by (simp add: then_do_def m Raise)
  qed
qed

lemma triple_pre:
  assumes "triple env P' m Q" "\<And>w. P w \<Longrightarrow> P' (g w)"
  shows "triple env P (\<lambda>w. m (g w)) Q"
  using assms by (simp add: triple_def)

lemma triple_if:
  assumes "c \<Longrightarrow> triple env P m1 Q" "\<not> c \<Longrightarrow> triple env P m2 Q"
  shows "triple env P (\<lambda>w. if c then m1 w else m2 w) Q"
  using assms by (simp add: triple_def)

lemma triple_return:
  assumes "\<And>w. P w \<Longrightarrow> Q x (g w)"
  shows "triple env P (\<lambda>w. (Normal x, g w)) Q"
  using assms by (simp add: triple_def)

lemma triple_call:
  assumes ok: "rmtree_call env 0 = Returns r" "down_call env 0 = Returns d"
    and sig: "\<And>w. P w \<Longrightarrow> quiet (at_signal w)"
    and f: "\<And>oc. triple env P (f oc) Q"
  shows "triple env P (call env st at_signal f) Q"
proof (rule tripleI)
  fix w assume p: "P w"
  show "case call env st at_signal f w of (Normal x, w') \<Rightarrow> Q x w' | (Raise e, w') \<Rightarrow> exc_ok env e w'"
  proof (cases st)
    case (Quiet oc)
    with f [of oc] p show ?thesis by (simp add: call_def triple_def)
  next
    case (Signal n oc)
    let ?w0 = "emit (SignalHandler n) (at_signal w)"
    from sig [OF p] have i: "interrupted n ?w0"
      by (simp add: quiet_def interrupted_def)
    then have t0: "teardown_runs ?w0 = 0" by (simp add: interrupted_def)
    from ok t0 have "cleanup_handler env (Some n) ?w0 = (Raise (SystemExit (128 + n)), torn_down env ?w0)"
      by (simp add: cleanup_handler_ok)
    with i show ?thesis
      by (auto simp: call_def Signal then_do_def exc_ok_def)
  qed
qed

lemma quiet_steps [simp]:
  "quiet (emit (Run cmd) w) = quiet w"
  "quiet (emit Copytree w) = quiet w"
  "quiet (emit Safeify w) = quiet w"
  "quiet (change_files f w) = quiet w"
  "quiet (w\<lparr>workspace_exists := a\<rparr>) = quiet w"
  "quiet (w\<lparr>safe_compose_exists := b\<rparr>) = quiet w"
  "quiet (w\<lparr>docker_started := c\<rparr>) = quiet w"
  by (simp_all add: quiet_def)

lemma finish_cmd_triple: "triple env quiet (finish_cmd check oc) (\<lambda>_. quiet)"
  by (auto simp: triple_def finish_cmd_def exc_ok_def split: outcome.splits)

lemma run_cmd_triple:
  assumes ok: "rmtree_call env 0 = Returns r" "down_call env 0 = Returns d"
  shows "triple env quiet (run_cmd env cmd check st) (\<lambda>_. quiet)"
proof -
  have c: "triple env quiet (call env st id (finish_cmd check)) (\<lambda>_. quiet)"
    by (rule triple_call [OF ok]) (simp_all add: finish_cmd_triple)
  have "triple env quiet
          (\<lambda>w. call env st id (finish_cmd check)
                 (change_files (files_after env cmd) (emit (Run cmd) w))) (\<lambda>_. quiet)"
    by (rule triple_pre [OF c]) simp
  then show ?thesis by (simp add: run_cmd_def [abs_def])
qed

lemma get_repo_root_triple:
  assumes ok: "rmtree_call env 0 = Returns r" "down_call env 0 = Returns d"
  shows "triple env quiet (get_repo_root env) (\<lambda>_. quiet)"
  unfolding get_repo_root_def [abs_def]
  apply (rule triple_if)
   apply (rule triple_return)
   apply simp
  apply (rule run_cmd_triple [OF ok])
  done

lemma make_workspaces_dir_triple:
  assumes ok: "rmtree_call env 0 = Returns r" "down_call env 0 = Returns d"
  shows "triple env quiet (make_workspaces_dir env) (\<lambda>_. quiet)"
  unfolding make_workspaces_dir_def [abs_def]
  apply (rule triple_call [OF ok])
   apply simp
  apply (auto simp: triple_def exc_ok_def split: outcome.splits)
  done

lemma copytree_triple:
  assumes ok: "rmtree_call env 0 = Returns r" "down_call env 0 = Returns d"
  shows "triple env quiet (copytree env) (\<lambda>_. quiet)"
  unfolding copytree_def [abs_def]
  apply (rule triple_pre [where P' = quiet])
   apply (rule triple_call [OF ok])
    apply simp
   apply (auto simp: triple_def exc_ok_def split: outcome.splits)
  done

lemma checkout_branch_triple:
  assumes ok: "rmtree_call env 0 = Returns r" "down_call env 0 = Returns d"
  shows "triple env quiet (checkout_branch env) (\<lambda>_. quiet)"
  unfolding checkout_branch_def [abs_def]
  apply (rule triple_then [where Q = "\<lambda>_. quiet"])
   apply (rule run_cmd_triple [OF ok])
  apply (rule triple_then [where Q = "\<lambda>_. quiet"])
   apply (rule triple_if)
    apply (rule run_cmd_triple [OF ok])
   apply (rule run_cmd_triple [OF ok])
  apply (rule triple_return)
  apply simp
  done

lemma safeify_triple:
  assumes ok: "rmtree_call env 0 = Returns r" "down_call env 0 = Returns d"
  shows "triple env quiet (safeify env) (\<lambda>_. quiet)"
  unfolding safeify_def [abs_def]
  apply (rule triple_pre [where P' = quiet])
   apply (rule triple_call [OF ok])
    apply simp
   apply (auto simp: triple_def exc_ok_def split: outcome.splits)
  done

lemma setup_docker_triple:
  assumes ok: "rmtree_call env 0 = Returns r" "down_call env 0 = Returns d"
  shows "triple env quiet (setup_docker env) (\<lambda>_. quiet)"
  unfolding setup_docker_def [abs_def]
  apply (rule triple_if)
   apply (rule triple_return)
   apply simp
  apply (rule triple_then [OF safeify_triple [OF ok]])
  apply (rule triple_then [where Q = "\<lambda>_. quiet"])
   apply (rule run_cmd_triple [OF ok])
  apply (rule triple_then [where Q = "\<lambda>_. quiet"])
   apply (rule run_cmd_triple [OF ok])
  apply (rule triple_return)
  apply simp
  done

lemma run_agent_triple:
  assumes ok: "rmtree_call env 0 = Returns r" "down_call env 0 = Returns d"
  shows "triple env quiet (run_agent env) (\<lambda>_. quiet)"
proof (cases "prompt env")
  case None
  then show ?thesis by (simp add: run_agent_def [abs_def] triple_def exc_ok_def)
next
  case (Some p)
  have "triple env quiet (\<lambda>w. then_do (run_cmd env [agent env, p] True (agent_call env) w)
                   (\<lambda>_ w'. (Normal (), w'))) (\<lambda>_. quiet)"
    apply (rule triple_then [where Q = "\<lambda>_. quiet"])
     apply (rule run_cmd_triple [OF ok])
    apply (rule triple_return)
    apply simp
    done
  then show ?thesis by (simp add: run_agent_def [abs_def] Some)
qed

lemma try_body_triple:
  assumes ok: "rmtree_call env 0 = Returns r" "down_call env 0 = Returns d"
  shows "triple env quiet (try_body env) (\<lambda>_. quiet)"
  unfolding try_body_def [abs_def]
  apply (rule triple_then [OF get_repo_root_triple [OF ok]])
  apply (rule triple_then [OF make_workspaces_dir_triple [OF ok]])
  apply (rule triple_then [OF copytree_triple [OF ok]])
  apply (rule triple_then [OF checkout_branch_triple [OF ok]])
  apply (rule triple_then [where Q = "\<lambda>_. quiet"])
   apply (rule triple_if)
    apply (rule triple_then [OF setup_docker_triple [OF ok]])
    apply (rule triple_return)
    apply simp
   apply (rule triple_return)
   apply simp
  apply (rule run_agent_triple [OF ok])
  done

text \<open>
  Every run that has read the base branch and whose first teardown does not raise ends
  in the state the teardown leaves, run once, from a state \<open>w0\<close> in which the handler
  had run for no signal (exit 0) or for one signal \<open>n\<close> (exit \<open>128 + n\<close>).
\<close>

lemma main_summary:
  assumes base: "base_branch_call env = Returns 0"
    and ok: "rmtree_call env 0 = Returns r" "down_call env 0 = Returns d"
  shows "\<exists>w0. snd (main env) = torn_down env w0 \<and> teardown_runs w0 = 0 \<and>
           ((fst (main env) = Raise (SystemExit 0) \<and> signals (trace w0) = []) \<or>
            (\<exists>n. fst (main env) = Raise (SystemExit (128 + n)) \<and> signals (trace w0) = [n]))"
proof -
  let ?w = "emit (Run [''git'', ''rev-parse'', ''--abbrev-ref'', ''HEAD'']) initial_world"
  have m: "main env =
      (case try_body env ?w of
            (Normal _, w1) \<Rightarrow> cleanup_handler env None w1
          | (Raise KeyboardInterrupt, w1) \<Rightarrow>
              then_do (cleanup_handler env None w1) (\<lambda>_ w2. cleanup_handler env None w2)
          | (Raise (CalledProcessError returncode), w1) \<Rightarrow>
              then_do (cleanup_handler env None w1) (\<lambda>_ w2. sys_exit returncode w2)
          | (Raise (SystemExit code), w1) \<Rightarrow> (Raise (SystemExit code), w1)
          | (Raise OtherException, w1) \<Rightarrow>
              then_do (cleanup_handler env None w1) (\<lambda>_ w2. sys_exit 1 w2))"
    by (simp add: main_def base finish_cmd_def then_do_def)
  have "quiet ?w"
    by (simp add: quiet_def initial_world_def)
  with try_body_triple [OF ok]
  have t: "case try_body env ?w of (Normal x, w') \<Rightarrow> quiet w' | (Raise e, w') \<Rightarrow> exc_ok env e w'"
    by (simp add: triple_def)
  obtain res w1 where b: "try_body env ?w = (res, w1)" by (cases "try_body env ?w")
  have h: "quiet w1 \<Longrightarrow> cleanup_handler env None w1 = (Raise (SystemExit 0), torn_down env w1)"
    using cleanup_handler_ok [of env w1 r d None] ok by (simp add: quiet_def)
  show ?thesis
  proof (cases res)
    case (Normal x)
    with t b have q: "quiet w1" by simp
    with h have "main env = (Raise (SystemExit 0), torn_down env w1)" by (simp add: m b Normal)
    with q show ?thesis by (auto simp: quiet_def)
  next
    case (Raise e)
    with t b have x: "exc_ok env e w1" by simp
    show ?thesis
    proof (cases e)
      case (CalledProcessError rc)
      with x have q: "quiet w1" by (simp add: exc_ok_def)
      with h have "main env = (Raise (SystemExit 0), torn_down env w1)"
        by (simp add: m b Raise CalledProcessError then_do_def)
      with q show ?thesis by (auto simp: quiet_def)
    next
      case OtherException
      with x have q: "quiet w1" by (simp add: exc_ok_def)
      with h have "main env = (Raise (SystemExit 0), torn_down env w1)"
        by (simp add: m b Raise OtherException then_do_def)
      with q show ?thesis by (auto simp: quiet_def)
    next
      case KeyboardInterrupt
      with x show ?thesis by (simp add: exc_ok_def)
    next
      case (SystemExit c)
      with x obtain n w0 where "c = 128 + n" "w1 = torn_down env w0" "interrupted n w0"
        by (auto simp: exc_ok_def)
      moreover have "main env = (Raise (SystemExit c), w1)" by (simp add: m b Raise SystemExit)
      ultimately show ?thesis by (auto simp: interrupted_def)
    qed
  qed
qed


lemmas lifecycle_defs =
  main_def try_body_def run_agent_def setup_docker_def safeify_def checkout_branch_def
  copytree_def make_workspaces_dir_def get_repo_root_def run_cmd_def call_def
  cleanup_handler_def cleanup_workspace_def cleanup_docker_def sys_exit_def finish_cmd_def
  then_do_def emit_def change_files_def initial_world_def up_cmd_def down_cmd_def
  compose_cmd_def branch_name_def


lemma main_up_fails_env:
  "main up_fails_env =
     (Raise (SystemExit 0),
      \<lparr>docker_started = False, workspace_exists = False, safe_compose_exists = False,
         teardown_runs = 1,
         trace =
           [Run [''git'', ''rev-parse'', ''--abbrev-ref'', ''HEAD''],
            Run [''git'', ''rev-parse'', ''--show-toplevel''],
            Copytree,
            Run [''git'', ''rev-parse'', ''--verify'', ''feat/auth''],
            Run [''git'', ''checkout'', ''-b'', ''feat/auth'', ''main''],
            Safeify,
            Run [''docker'', ''compose'', ''-f'', ''docker-compose.safe.yml'', ''-p'',
                 ''auth_1700000000_4242'', ''up'', ''--build'', ''--force-recreate'', ''-d'', ''all''],
            WorkspaceExists True,
            Rmtree]\<rparr>)"
  by (simp add: lifecycle_defs calm_env_def up_fails_env_def)


lemma main_agent_deletes_env:
  "main agent_deletes_env =
     (Raise (SystemExit 0),
      \<lparr>docker_started = True, workspace_exists = False, safe_compose_exists = False,
         teardown_runs = 1,
         trace =
           [Run [''git'', ''rev-parse'', ''--abbrev-ref'', ''HEAD''],
            Run [''git'', ''rev-parse'', ''--show-toplevel''],
            Copytree,
            Run [''git'', ''rev-parse'', ''--verify'', ''feat/auth''],
            Run [''git'', ''checkout'', ''-b'', ''feat/auth'', ''main''],
            Safeify,
            Run [''docker'', ''compose'', ''-f'', ''docker-compose.safe.yml'', ''-p'',
                 ''auth_1700000000_4242'', ''up'', ''--build'', ''--force-recreate'', ''-d'', ''all''],
            Run [''docker'', ''compose'', ''-f'', ''docker-compose.safe.yml'', ''-p'',
                 ''auth_1700000000_4242'', ''ps''],
            Run [''claude-code'', ''Add JWT authentication''],
            SafeComposeExists False,
            WorkspaceExists True,
            Rmtree]\<rparr>)"
  by (simp add: lifecycle_defs calm_env_def agent_deletes_env_def)





text \<open>
  The same happens with the flag set when the agent has deleted
  \<open>docker-compose.safe.yml\<close>: \<open>cleanup_docker\<close> finds no file and runs no
  \<open>docker compose down\<close>; the directory is removed all the same.
\<close>

lemma deleted_compose_file_skips_compose_down:
  "docker_started (snd (main agent_deletes_env))
   \<and> Run (up_cmd agent_deletes_env) \<in> set (trace (snd (main agent_deletes_env)))
   \<and> SafeComposeExists False \<in> set (trace (snd (main agent_deletes_env)))
   \<and> Run (down_cmd agent_deletes_env) \<notin> set (trace (snd (main agent_deletes_env)))
   \<and> \<not> workspace_exists (snd (main agent_deletes_env))"
  by (simp add: main_agent_deletes_env)
     (simp add: agent_deletes_env_def calm_env_def up_cmd_def down_cmd_def compose_cmd_def)




text \<open>
  C10. On every run in which no signal is delivered and the teardown does not raise, the
  exit status is 0, whatever the stages did (a \<open>CalledProcessError\<close> of git, docker or the
  agent, or any other exception). \<open>cleanup_handler\<close> never returns normally, so the
  statements \<open>sys.exit(e.returncode)\<close> and \<open>sys.exit(1)\<close> after its calls are never
  reached.
\<close>

theorem non_signal_exit_status_zero:
  "(base_branch_call env = Returns 0 \<longrightarrow> rmtree_call env 0 = Returns r \<longrightarrow>
      down_call env 0 = Returns d \<longrightarrow>
      (\<forall>n. SignalHandler n \<notin> set (trace (snd (main env)))) \<longrightarrow>
      exit_status (main env) = 0)
   \<and> (\<forall>signum w. fst (cleanup_handler env signum w) \<noteq> Normal ())"
proof (intro conjI impI allI)
  assume b: "base_branch_call env = Returns 0" and r: "rmtree_call env 0 = Returns r"
    and d: "down_call env 0 = Returns d"
    and q: "\<forall>n. SignalHandler n \<notin> set (trace (snd (main env)))"
  from main_summary [OF b r d] obtain w0 where
    w: "snd (main env) = torn_down env w0" and t: "teardown_runs w0 = 0"
    and e: "(fst (main env) = Raise (SystemExit 0) \<and> signals (trace w0) = []) \<or>
            (\<exists>m. fst (main env) = Raise (SystemExit (128 + m)) \<and> signals (trace w0) = [m])"
    by blast
  from r d t have ok: "rmtree_call env (teardown_runs w0) = Returns r"
    "down_call env (teardown_runs w0) = Returns d" by simp_all
  have "signals (trace w0) = []"
  proof (rule ccontr)
    assume "signals (trace w0) \<noteq> []"
    with e obtain m where "signals (trace w0) = [m]" by auto
    then have "m \<in> set (signals (trace (snd (main env))))"
      by (simp add: w torn_down_fields(4) [OF ok])
    with q show False by (simp add: signals_member)
  qed
  with e have "fst (main env) = Raise (SystemExit 0)" by auto
  then show "exit_status (main env) = 0" by (simp add: exit_status_def)
next
  fix signum w
  show "fst (cleanup_handler env signum w) \<noteq> Normal ()" by (rule cleanup_handler_raises)
qed

theorem non_signal_exit_status_zero_witness:
  "up_call up_fails_env = Quiet (Returns 1)
   \<and> exit_status (main up_fails_env) = 0
   \<and> fst (cleanup_handler up_fails_env None (snd (main up_fails_env))) \<noteq> Normal ()"
proof -
  have b: "base_branch_call up_fails_env = Returns 0" and r: "rmtree_call up_fails_env 0 = Returns 0"
    and d: "down_call up_fails_env 0 = Returns 1" and u: "up_call up_fails_env = Quiet (Returns 1)"
    by (simp_all add: up_fails_env_def calm_env_def)
  have q: "\<forall>n. SignalHandler n \<notin> set (trace (snd (main up_fails_env)))"
    by (simp add: main_up_fails_env)
  from non_signal_exit_status_zero [of up_fails_env 0 1] b r d q u show ?thesis by blast
qed

end
